theory Spec2Isabelle
  imports Main
begin

section \<open>Strings of the page scripts\<close>




definition upper_char :: "char \<Rightarrow> char" where
  "upper_char c =
     (let n = (of_char c :: nat) in if 97 \<le> n \<and> n \<le> 122 then char_of (n - 32) else c)"

definition toUpperCase :: "string \<Rightarrow> string" where
  "toUpperCase s = map upper_char s"

text \<open>
  Truthiness of an optional string property: \<^verbatim>\<open>undefined\<close>, \<^verbatim>\<open>null\<close> and the empty string
  are falsy. \<open>or_else a d\<close> is the script's \<^verbatim>\<open>a || d\<close> with a string default.
\<close>

definition truthy :: "string option \<Rightarrow> bool" where
  "truthy a = (case a of None \<Rightarrow> False | Some s \<Rightarrow> s \<noteq> [])"

definition or_else :: "string option \<Rightarrow> string \<Rightarrow> string" where
  "or_else a d = (case a of None \<Rightarrow> d | Some s \<Rightarrow> if s = [] then d else s)"

section \<open>The result envelope, as the results page reads it\<close>

text \<open>
  An element of a match list is a JSON object; the page reads the properties below and
  every one of them may be missing. \<open>measures\<close> is an array whose elements may be
  \<^verbatim>\<open>null\<close>.
\<close>

record source_match =
  match_type :: "string option"
  match_name :: "string option"
  acronym :: "string option"
  specification_field :: "string option"
  country :: "string option"
  measures :: "string option list option"
  reference_number :: "string option"
  listed_on :: "string option"

record evidence_urls =
  eu_evidence :: "string option"
  un_evidence :: "string option"

text \<open>
  The envelope returned by \<^verbatim>\<open>POST /search\<close>, with the properties the page reads. The two
  found flags are read for their truthiness only, so a missing flag is \<open>False\<close>; every
  other property may be missing (\<open>None\<close>). The record is extensible: whatever other
  properties the backend puts into the envelope are its \<open>more\<close> part, which no function of
  the page reads.
\<close>

record envelope =
  query :: "string option"
  search_type :: "string option"
  eu_found :: bool
  un_found :: bool
  eu_matches :: "source_match list option"
  un_matches :: "source_match list option"
  risk_score :: "string option"
  ai_summary :: "string option"
  evidence_urls :: "evidence_urls option"
  audit_folder :: "string option"

section \<open>The results page (frontend/pages/results.js)\<close>

subsection \<open>Helper functions\<close>

definition getRiskBadgeClass :: "string option \<Rightarrow> string" where
  "getRiskBadgeClass risk =
     (if \<not> truthy risk then ''badge-low''
      else let r = toUpperCase (the risk) in
        if r = ''CRITICAL'' \<or> r = ''CRITIC'' then ''badge-critical''
        else if r = ''HIGH'' \<or> r = ''RIDICAT'' then ''badge-high''
        else if r = ''MEDIUM'' \<or> r = ''MEDIU'' then ''badge-medium''
        else ''badge-low'')"

definition label_scazut :: string where
  "label_scazut = ''SC'' @ [CHR 0xC4, CHR 0x82] @ ''ZUT''"

definition getRiskLabel :: "string option \<Rightarrow> string" where
  "getRiskLabel risk =
     (if \<not> truthy risk then label_scazut
      else let r = toUpperCase (the risk) in
        if r = ''CRITICAL'' then ''CRITIC''
        else if r = ''HIGH'' then ''RIDICAT''
        else if r = ''MEDIUM'' then ''MEDIU''
        else if r = ''LOW'' then label_scazut
        else the risk)"

definition getSearchTypeLabel :: "string option \<Rightarrow> string" where
  "getSearchTypeLabel ty =
     (if ty = Some ''person'' then ''Persoan'' @ [CHR 0xC4, CHR 0x83] else ''Companie'')"

subsection \<open>Page state\<close>

text \<open>
  The component's \<^verbatim>\<open>useState\<close> cells. \<open>results\<close> is \<^verbatim>\<open>null\<close> (\<open>None\<close>) until an envelope
  is set; \<open>selectedPerson\<close> is the match object of the clicked card.
\<close>

record 'e results_page =
  results :: "'e option"
  loading :: bool
  showConfirmation :: bool
  selectedPerson :: "source_match option"
  searching :: bool

definition initial_results_page :: "'e results_page" where
  "initial_results_page =
     \<lparr>results = None, loading = True, showConfirmation = False,
      selectedPerson = None, searching = False\<rparr>"

text \<open>The setter of the \<open>results\<close> cell; the other cells keep their values.\<close>

definition setResults :: "'f option \<Rightarrow> 'e results_page \<Rightarrow> 'f results_page" where
  "setResults v st =
     \<lparr>results = v, loading = loading st, showConfirmation = showConfirmation st,
      selectedPerson = selectedPerson st, searching = searching st\<rparr>"

subsection \<open>Which screen is shown\<close>

definition is_person_match :: "source_match \<Rightarrow> bool" where
  "is_person_match m \<longleftrightarrow> match_type m = Some ''person_match''"

text \<open>
  \<^verbatim>\<open>results.eu_matches?.filter(...)\<close>: \<open>None\<close> when the property is missing, and then the
  comparison \<^verbatim>\<open>undefined > 1\<close> is false.
\<close>

definition personMatches :: "'a envelope_scheme \<Rightarrow> source_match list option" where
  "personMatches r = map_option (filter is_person_match) (eu_matches r)"

definition shouldShowPersonSelection :: "'a envelope_scheme option \<Rightarrow> bool" where
  "shouldShowPersonSelection res =
     (case res of
        None \<Rightarrow> False
      | Some r \<Rightarrow>
          \<not> eu_found r \<and> \<not> un_found r \<and>
          (case personMatches r of None \<Rightarrow> False | Some ps \<Rightarrow> length ps > 1))"

definition isHighRisk :: "'a envelope_scheme option \<Rightarrow> bool" where
  "isHighRisk res = (case res of None \<Rightarrow> False | Some r \<Rightarrow> eu_found r \<or> un_found r)"

subsection \<open>What is rendered\<close>

text \<open>
  The markup is abstracted to the data it shows. A list item of the EU card is a person
  item (the name) or a regime item (title, excerpt of the specification, country,
  measures); a list item of the UN card shows name, reference number and listing date.
\<close>

datatype list_item =
    Person_item "string option"
  | Regime_item string "string option" "string option" "string option"
  | Un_item string "string option" "string option"

fun join :: "string \<Rightarrow> string list \<Rightarrow> string" where
  "join sep [] = []"
| "join sep [x] = x"
| "join sep (x # y # ys) = x @ sep @ join sep (y # ys)"

text \<open>
  \<^verbatim>\<open>measures.filter(Boolean)\<close> keeps the elements that are non-empty strings. The excerpt
  \<^verbatim>\<open>specification.substring(0, 100)\<close> is counted in bytes here and in UTF-16 code units in
  the script, which is the same on ASCII text.
\<close>

definition filter_Boolean :: "string option list \<Rightarrow> string list" where
  "filter_Boolean xs = map the (filter truthy xs)"

definition render_eu_item :: "source_match \<Rightarrow> list_item" where
  "render_eu_item m =
     (if is_person_match m then Person_item (match_name m)
      else Regime_item
        (or_else (acronym m) ''Regim'')
        (if truthy (specification_field m)
         then Some (take 100 (the (specification_field m)) @ ''...'') else None)
        (if truthy (country m) then country m else None)
        (case measures m of
           None \<Rightarrow> None
         | Some ms \<Rightarrow> if length ms > 0 then Some (join '', '' (filter_Boolean ms)) else None))"

definition render_un_item :: "source_match \<Rightarrow> list_item" where
  "render_un_item m =
     Un_item (or_else (match_name m) ''Necunoscut'')
       (if truthy (reference_number m) then reference_number m else None)
       (if truthy (listed_on m) then listed_on m else None)"

datatype card_body = No_match | Match_list "list_item list"

record source_card =
  card_danger :: bool
  card_badge :: string
  card_body :: card_body

definition badge_gasit :: string where
  "badge_gasit = ''G'' @ [CHR 0xC4, CHR 0x82] @ ''SIT''"

definition badge_negasit :: string where
  "badge_negasit = ''NEG'' @ [CHR 0xC4, CHR 0x82] @ ''SIT''"

text \<open>
  A card lists matches only when the source's flag is set and the list is present and
  non-empty; then it lists \<^verbatim>\<open>matches.slice(0, 5)\<close>.
\<close>

definition render_card ::
  "(source_match \<Rightarrow> list_item) \<Rightarrow> bool \<Rightarrow> source_match list option \<Rightarrow> source_card" where
  "render_card item found matches =
     \<lparr>card_danger = found,
      card_badge = (if found then badge_gasit else badge_negasit),
      card_body =
        (if found \<and> (case matches of None \<Rightarrow> False | Some ms \<Rightarrow> length ms > 0)
         then Match_list (map item (take 5 (the matches)))
         else No_match)\<rparr>"

definition no_summary :: string where
  "no_summary =
     ''Nu exist'' @ [CHR 0xC4, CHR 0x83] @ '' analiza disponibil'' @ [CHR 0xC4, CHR 0x83] @ ''.''"

record results_view =
  high_risk :: bool
  badge_class :: string
  risk_label :: string
  shown_query :: "string option"
  shown_type :: string
  summary_text :: string
  eu_card :: source_card
  un_card :: source_card
  eu_evidence_link :: "string option"
  un_evidence_link :: "string option"
  storage_path :: "string option"

record selection_view =
  sel_query :: "string option"
  sel_count :: nat
  sel_cards :: "source_match list"
  sel_modal :: "source_match option"
  sel_searching :: bool

datatype view =
    Loading_view
  | Person_selection_view selection_view
  | Results_view results_view

definition render_results :: "'a envelope_scheme \<Rightarrow> results_view" where
  "render_results r =
     \<lparr>high_risk = isHighRisk (Some r),
      badge_class = getRiskBadgeClass (risk_score r),
      risk_label = getRiskLabel (risk_score r),
      shown_query = query r,
      shown_type = getSearchTypeLabel (search_type r),
      summary_text = or_else (ai_summary r) no_summary,
      eu_card = render_card render_eu_item (eu_found r) (eu_matches r),
      un_card = render_card render_un_item (un_found r) (un_matches r),
      eu_evidence_link =
        (case evidence_urls r of
           None \<Rightarrow> None
         | Some u \<Rightarrow> if truthy (eu_evidence u) then eu_evidence u else None),
      un_evidence_link =
        (case evidence_urls r of
           None \<Rightarrow> None
         | Some u \<Rightarrow> if truthy (un_evidence u) then un_evidence u else None),
      storage_path =
        (if truthy (audit_folder r)
         then Some (''Cale stocare: '' @ the (audit_folder r) @ ''/'') else None)\<rparr>"

text \<open>
  The person-selection screen. It is rendered only when \<open>shouldShowPersonSelection\<close> holds,
  and then \<open>eu_matches\<close> is present.
\<close>

definition render_selection :: "('a envelope_scheme) results_page \<Rightarrow> 'a envelope_scheme \<Rightarrow> selection_view" where
  "render_selection st r =
     (let ps = filter is_person_match (the (eu_matches r)) in
      \<lparr>sel_query = query r,
       sel_count = length ps,
       sel_cards = ps,
       sel_modal = (if showConfirmation st then selectedPerson st else None),
       sel_searching = searching st\<rparr>)"

text \<open>
  The component body: the spinner while loading or while there is no envelope, the
  person-selection screen when \<open>shouldShowPersonSelection\<close>, the results screen otherwise.
\<close>

definition render :: "('a envelope_scheme) results_page \<Rightarrow> view" where
  "render st =
     (if loading st \<or> results st = None then Loading_view
      else if shouldShowPersonSelection (results st)
      then Person_selection_view (render_selection st (the (results st)))
      else Results_view (render_results (the (results st))))"

section \<open>The browser and the backend, as the pages use them\<close>

text \<open>
  \<^verbatim>\<open>JSON.stringify\<close> and \<^verbatim>\<open>JSON.parse\<close> belong to the JavaScript runtime, not to the
  repository: they are parameters of the model. \<open>JSON_parse\<close> returns \<open>None\<close> where the
  runtime throws a \<^verbatim>\<open>SyntaxError\<close>.
\<close>

record 'v json_codec =
  JSON_stringify :: "'v \<Rightarrow> string"
  JSON_parse :: "string \<Rightarrow> 'v option"

text \<open>
  The body object of a \<^verbatim>\<open>POST /search\<close> request before it is serialized; a property whose
  value is \<^verbatim>\<open>undefined\<close> is \<open>None\<close>.
\<close>

record request =
  req_url :: string
  req_method :: string
  body_name :: "string option"
  body_search_type :: "string option"




text \<open>
  The part of the browser the pages act on: the session storage (taken as unbounded), the
  routes pushed to the router, the requests sent with \<^verbatim>\<open>fetch\<close> and the alerts shown,
  each in the order of the calls.
\<close>

record browser =
  sessionStorage :: "string \<rightharpoonup> string"
  pushed :: "string list"
  requests :: "request list"
  alerts :: "string list"

definition getItem :: "string \<Rightarrow> browser \<Rightarrow> string option" where
  "getItem k br = sessionStorage br k"

definition setItem :: "string \<Rightarrow> string \<Rightarrow> browser \<Rightarrow> browser" where
  "setItem k v br = br\<lparr>sessionStorage := (sessionStorage br)(k \<mapsto> v)\<rparr>"

definition router_push :: "string \<Rightarrow> browser \<Rightarrow> browser" where
  "router_push route br = br\<lparr>pushed := pushed br @ [route]\<rparr>"

definition sent :: "request \<Rightarrow> browser \<Rightarrow> browser" where
  "sent req br = br\<lparr>requests := requests br @ [req]\<rparr>"

definition alert :: "string \<Rightarrow> browser \<Rightarrow> browser" where
  "alert msg br = br\<lparr>alerts := alerts br @ [msg]\<rparr>"



section \<open>The search page (frontend/pages/index.js)\<close>








section \<open>The results page: effects and handlers\<close>

text \<open>
  The mount effect. A stored string counts only when it is truthy (present and non-empty).
  The value parsed from it is \<^verbatim>\<open>null\<close> (\<open>None\<close>) or an envelope; when parsing throws, or
  nothing is stored, the router is sent to the home page and \<open>results\<close> stays \<^verbatim>\<open>null\<close>.
\<close>

definition useEffect ::
  "('e option) json_codec \<Rightarrow> 'e results_page \<times> browser \<Rightarrow> 'e results_page \<times> browser" where
  "useEffect J = (\<lambda>(st, br).
     let stored = getItem ''searchResults'' br;
         home = router_push ''/'' br;
         (st1, br1) =
           (if truthy stored then
              (case JSON_parse J (the stored) of
                 Some v \<Rightarrow> (setResults v st, br)
               | None \<Rightarrow> (st, home))
            else (st, home))
     in (st1\<lparr>loading := False\<rparr>, br1))"


definition handleCancelSearch :: "'e results_page \<Rightarrow> 'e results_page" where
  "handleCancelSearch st = st\<lparr>showConfirmation := False, selectedPerson := None\<rparr>"


text \<open>A visit of the results page: mount with the initial state, then render.\<close>

definition visit ::
  "(('a envelope_scheme) option) json_codec \<Rightarrow> browser \<Rightarrow> view \<times> browser" where
  "visit J br = (let (st, br1) = useEffect J (initial_results_page, br) in (render st, br1))"

section \<open>The backend's risk assessment\<close>




definition found :: "source_match list \<Rightarrow> bool" where
  "found ms \<longleftrightarrow> length ms > 0"





text \<open>
  Modelled from the spec: the explicit unavailable flags of section 4.3, as further
  properties of the envelope.
\<close>

record flagged_envelope = envelope +
  eu_unavailable :: bool
  un_unavailable :: bool

section \<open>Example data\<close>

definition person :: "string \<Rightarrow> source_match" where
  "person n =
     \<lparr>match_type = Some ''person_match'', match_name = Some n, acronym = None,
      specification_field = None, country = None, measures = None,
      reference_number = None, listed_on = None\<rparr>"

definition regime :: source_match where
  "regime =
     \<lparr>match_type = Some ''regime'', match_name = None, acronym = Some ''XYZ'',
      specification_field = Some ''Restrictive measures'', country = Some ''XY'',
      measures = Some [Some ''asset freeze'', Some ''travel ban''],
      reference_number = None, listed_on = None\<rparr>"

text \<open>An envelope with no definite match and the given live-source matches.\<close>

definition candidates_envelope :: "source_match list \<Rightarrow> envelope" where
  "candidates_envelope ms =
     \<lparr>query = Some ''IVAN PETROV'', search_type = Some ''person'',
      eu_found = False, un_found = False, eu_matches = Some ms, un_matches = Some [],
      risk_score = Some ''LOW'', ai_summary = None, evidence_urls = None, audit_folder = None\<rparr>"

definition three_candidates :: "source_match list" where
  "three_candidates = [person ''IVAN PETROV'', person ''IVAN A. PETROV'', person ''IVANA PETROVA'']"

definition seven_candidates :: "source_match list" where
  "seven_candidates = map person [''P1'', ''P2'', ''P3'', ''P4'', ''P5'', ''P6'', ''P7'']"

text \<open>An envelope in which both sources found the name, with seven list entries.\<close>

definition found_envelope :: envelope where
  "found_envelope =
     \<lparr>query = Some ''ACME'', search_type = Some ''entity'',
      eu_found = True, un_found = True, eu_matches = Some [regime],
      un_matches = Some seven_candidates,
      risk_score = Some ''CRITICAL'', ai_summary = Some [], evidence_urls = None,
      audit_folder = None\<rparr>"

text \<open>Two envelopes that differ in the unavailable flag of the live source only.\<close>

definition no_match_envelope :: "bool \<Rightarrow> flagged_envelope" where
  "no_match_envelope unavailable =
     \<lparr>query = Some ''ACME'', search_type = Some ''entity'',
      eu_found = False, un_found = False, eu_matches = Some [], un_matches = Some [],
      risk_score = Some ''LOW'', ai_summary = Some ''No match.'', evidence_urls = None,
      audit_folder = None, eu_unavailable = unavailable, un_unavailable = False\<rparr>"

text \<open>The page state once an envelope is set and loading is over.\<close>

definition loaded :: "'e \<Rightarrow> 'e results_page" where
  "loaded r = initial_results_page\<lparr>results := Some r, loading := False\<rparr>"

text \<open>The object \<^verbatim>\<open>{}\<close>: an envelope none of whose properties is present.\<close>

definition empty_envelope :: envelope where
  "empty_envelope =
     \<lparr>query = None, search_type = None, eu_found = False, un_found = False,
      eu_matches = None, un_matches = None, risk_score = None, ai_summary = None,
      evidence_urls = None, audit_folder = None\<rparr>"

text \<open>
  A codec for the two smallest JSON texts, \<^verbatim>\<open>null\<close> and \<^verbatim>\<open>{}\<close>: it is right on the values
  \<^verbatim>\<open>null\<close> and \<open>empty_envelope\<close>, which is all the examples ask of it.
\<close>

definition example_codec :: "envelope option json_codec" where
  "example_codec =
     \<lparr>JSON_stringify = (\<lambda>v. if v = None then ''null'' else ''{}''),
      JSON_parse = (\<lambda>s. if s = ''null'' then Some None
                         else if s = ''{}'' then Some (Some empty_envelope)
                         else None)\<rparr>"



definition empty_browser :: browser where
  "empty_browser = \<lparr>sessionStorage = Map.empty, pushed = [], requests = [], alerts = []\<rparr>"


section \<open>Auxiliary facts\<close>

lemmas browser_ops = getItem_def setItem_def router_push_def sent_def alert_def



lemma results_loaded: "results (loaded r) = Some r"
  by (simp add: loaded_def)

lemma not_loading_loaded: "\<not> loading (loaded r)"
  by (simp add: loaded_def)

lemma is_person_match_person: "is_person_match (person n)"
  by (simp add: is_person_match_def person_def)

section \<open>Properties\<close>

subsection \<open>Claim C1: when the person-selection screen is shown\<close>

text \<open>
  C1. Once an envelope is loaded, the person-selection (disambiguation) screen is shown if
  and only if the envelope reports neither source found and the live source's match list
  holds more than one element of type \<^verbatim>\<open>person_match\<close>; for every other envelope the
  results screen is shown.
\<close>

theorem person_selection_iff:
  assumes "results st = Some r" and "\<not> loading st"
  shows "((\<exists>v. render st = Person_selection_view v) \<longleftrightarrow>
            \<not> eu_found r \<and> \<not> un_found r \<and>
            1 < length (filter is_person_match (case eu_matches r of None \<Rightarrow> [] | Some ms \<Rightarrow> ms)))
       \<and> (\<not> (\<not> eu_found r \<and> \<not> un_found r \<and>
            1 < length (filter is_person_match (case eu_matches r of None \<Rightarrow> [] | Some ms \<Rightarrow> ms)))
          \<longrightarrow> render st = Results_view (render_results r))"
  using assms
  by (auto simp: render_def shouldShowPersonSelection_def personMatches_def split: option.splits)

theorem person_selection_iff_witness:
  "results (loaded (candidates_envelope three_candidates)) = Some (candidates_envelope three_candidates)
   \<and> \<not> loading (loaded (candidates_envelope three_candidates))
   \<and> (\<exists>v. render (loaded (candidates_envelope three_candidates)) = Person_selection_view v)"
proof -
  have c: "\<not> eu_found (candidates_envelope three_candidates)
      \<and> \<not> un_found (candidates_envelope three_candidates)
      \<and> 1 < length (filter is_person_match
            (case eu_matches (candidates_envelope three_candidates) of None \<Rightarrow> [] | Some ms \<Rightarrow> ms))"
    by (simp add: candidates_envelope_def three_candidates_def is_person_match_person)
  have r: "results (loaded (candidates_envelope three_candidates)) = Some (candidates_envelope three_candidates)"
    by (rule results_loaded)
  have l: "\<not> loading (loaded (candidates_envelope three_candidates))"
    by (rule not_loading_loaded)
  from person_selection_iff [OF r l] c r l show ?thesis by blast
qed

subsection \<open>Claim C2: the risk tier follows the found flags\<close>



subsection \<open>Claim C3: the empty-name gate of the search page\<close>




subsection \<open>Claim C4: confirming a candidate\<close>



subsection \<open>Claim C5: how many matches are listed\<close>

text \<open>
  C5, amended. On the results screen the card of a source lists matches only when the
  source's found flag is set and its list is present and non-empty; it then lists the
  first five elements of the list at most, in the list's order. The badge of the card
  shows the envelope's found flag, whatever the length of the list: the page never
  computes the flag from the count. On the person-selection screen every element of type
  \<^verbatim>\<open>person_match\<close> of the live source's list is listed, in the list's order, with no cap.
\<close>

theorem cards_list_first_five:
  "card_body (eu_card (render_results r)) =
      (if eu_found r \<and> eu_matches r \<noteq> None \<and> the (eu_matches r) \<noteq> []
       then Match_list (map render_eu_item (take 5 (the (eu_matches r)))) else No_match)
   \<and> card_body (un_card (render_results r)) =
      (if un_found r \<and> un_matches r \<noteq> None \<and> the (un_matches r) \<noteq> []
       then Match_list (map render_un_item (take 5 (the (un_matches r)))) else No_match)
   \<and> (\<forall>items. card_body (eu_card (render_results r)) = Match_list items \<or>
               card_body (un_card (render_results r)) = Match_list items \<longrightarrow> length items \<le> 5)
   \<and> card_badge (eu_card (render_results r)) = (if eu_found r then badge_gasit else badge_negasit)
   \<and> card_badge (un_card (render_results r)) = (if un_found r then badge_gasit else badge_negasit)
   \<and> (results st = Some r \<and> \<not> loading st \<and> shouldShowPersonSelection (Some r) \<longrightarrow>
        (\<exists>v. render st = Person_selection_view v \<and>
             sel_cards v = filter is_person_match (the (eu_matches r))))"
  by (auto simp: render_results_def render_card_def render_def render_selection_def Let_def
      split: option.splits)

theorem cards_list_first_five_witness:
  "un_found found_envelope \<and> length (the (un_matches found_envelope)) = 7
   \<and> card_body (un_card (render_results found_envelope)) =
       Match_list (map render_un_item (take 5 seven_candidates))
   \<and> length (map render_un_item (take 5 seven_candidates)) = 5"
proof -
  have f: "un_found found_envelope" "un_matches found_envelope = Some seven_candidates"
    by (simp_all add: found_envelope_def)
  have n: "length seven_candidates = 7" "seven_candidates \<noteq> []"
    by (simp_all add: seven_candidates_def)
  from cards_list_first_five [of found_envelope] f n show ?thesis by simp
qed

text \<open>
  The claim as stated fails on an envelope of the disambiguation flow: with seven person
  candidates and no definite match, all seven are listed, and the found flag of the live
  source is false although its list has seven elements.
\<close>

theorem seven_candidates_counterexample:
  "render (loaded (candidates_envelope seven_candidates)) =
     Person_selection_view
       \<lparr>sel_query = Some ''IVAN PETROV'', sel_count = 7, sel_cards = seven_candidates,
        sel_modal = None, sel_searching = False\<rparr>
   \<and> length seven_candidates = 7
   \<and> eu_matches (candidates_envelope seven_candidates) = Some seven_candidates
   \<and> \<not> eu_found (candidates_envelope seven_candidates)"
  by (simp add: render_def loaded_def initial_results_page_def shouldShowPersonSelection_def
      personMatches_def candidates_envelope_def seven_candidates_def is_person_match_person
      render_selection_def)

subsection \<open>Claim C6: a source that is unavailable\<close>

text \<open>
  C6, amended. What the results page renders depends on the ten properties of the
  envelope it reads and on nothing else in it: an unavailable flag, or any other further
  property, changes nothing on the screen. A source whose found flag is false is shown
  with the not-found badge and the no-match text, so a source marked unavailable is
  presented exactly as a source with no match.
\<close>

theorem unavailable_not_rendered:
  "render (setResults (Some r) st) = render (setResults (Some (envelope.truncate r)) st)
   \<and> (\<not> eu_found r \<longrightarrow>
        eu_card (render_results r) =
          \<lparr>card_danger = False, card_badge = badge_negasit, card_body = No_match\<rparr>)
   \<and> (\<not> un_found r \<longrightarrow>
        un_card (render_results r) =
          \<lparr>card_danger = False, card_badge = badge_negasit, card_body = No_match\<rparr>)"
  by (simp add: render_def shouldShowPersonSelection_def personMatches_def render_selection_def
     render_results_def isHighRisk_def envelope.truncate_def render_card_def setResults_def)

theorem unavailable_not_rendered_witness:
  "\<not> eu_found (no_match_envelope True) \<and> eu_unavailable (no_match_envelope True)
   \<and> eu_card (render_results (no_match_envelope True)) =
        \<lparr>card_danger = False, card_badge = badge_negasit, card_body = No_match\<rparr>"
proof -
  have f: "\<not> eu_found (no_match_envelope True)" "eu_unavailable (no_match_envelope True)"
    by (simp_all add: no_match_envelope_def)
  from unavailable_not_rendered [where r = "no_match_envelope True"] f
  show ?thesis by blast
qed

text \<open>
  The claim as stated fails: two envelopes that differ in the unavailable flag of the live
  source only, one a genuine no-match and one a degraded search, are rendered alike.
\<close>

theorem unavailable_counterexample:
  "render (loaded (no_match_envelope True)) = render (loaded (no_match_envelope False))
   \<and> eu_unavailable (no_match_envelope True) \<noteq> eu_unavailable (no_match_envelope False)
   \<and> eu_found (no_match_envelope True) = False"
  by (simp add: render_def shouldShowPersonSelection_def personMatches_def render_selection_def
     render_results_def isHighRisk_def no_match_envelope_def loaded_def)

subsection \<open>Claim C7: what becomes of the name's casing\<close>




subsection \<open>Claim C8: the narrative shown is never empty\<close>

text \<open>
  C8. The narrative shown on the results screen is never empty: when the envelope's
  summary is absent, null or the empty string, the fixed fallback text is shown in its
  place, and otherwise the summary itself.
\<close>

theorem narrative_never_empty:
  "summary_text (render_results r) \<noteq> [] \<and>
   (\<not> truthy (ai_summary r) \<longrightarrow> summary_text (render_results r) = no_summary) \<and>
   (truthy (ai_summary r) \<longrightarrow> Some (summary_text (render_results r)) = ai_summary r)"
  by (auto simp: render_results_def or_else_def truthy_def no_summary_def split: option.splits)

theorem narrative_never_empty_witness:
  "\<not> truthy (ai_summary found_envelope) \<and>
   summary_text (render_results found_envelope) = no_summary \<and>
   summary_text (render_results found_envelope) \<noteq> []"
proof -
  have h: "\<not> truthy (ai_summary found_envelope)"
    by (simp add: found_envelope_def truthy_def)
  from narrative_never_empty [of found_envelope] h show ?thesis by blast
qed

subsection \<open>Claim C9: the envelope passes from the search page to the results page\<close>



subsection \<open>Claim C10: a visit without a usable stored envelope\<close>

text \<open>
  C10. When nothing is stored under the key \<^verbatim>\<open>searchResults\<close>, or the stored text does not
  parse, a visit of the results page sends the router to the home page and renders the
  spinner only. Whenever a visit renders anything else, a stored text was parsed to an
  envelope, and nothing was pushed to the router.
\<close>

theorem visit_without_envelope:
  "((getItem ''searchResults'' br = None \<or>
     (\<exists>s. getItem ''searchResults'' br = Some s \<and> JSON_parse J s = None)) \<longrightarrow>
      visit J br = (Loading_view, router_push ''/'' br))
   \<and> (fst (visit J br) \<noteq> Loading_view \<longrightarrow>
        (\<exists>s e. getItem ''searchResults'' br = Some s \<and> JSON_parse J s = Some (Some e) \<and>
               snd (visit J br) = br))"
  by (auto simp: visit_def useEffect_def Let_def render_def initial_results_page_def truthy_def
      setResults_def split: option.splits if_splits)

theorem visit_without_envelope_witness:
  "getItem ''searchResults'' empty_browser = None
   \<and> visit example_codec empty_browser = (Loading_view, router_push ''/'' empty_browser)
   \<and> getItem ''searchResults'' (setItem ''searchResults'' ''{not json'' empty_browser) = Some ''{not json''
   \<and> JSON_parse example_codec ''{not json'' = None
   \<and> visit example_codec (setItem ''searchResults'' ''{not json'' empty_browser) =
       (Loading_view, router_push ''/'' (setItem ''searchResults'' ''{not json'' empty_browser))"
proof -
  have g: "getItem ''searchResults'' empty_browser = None"
    "getItem ''searchResults'' (setItem ''searchResults'' ''{not json'' empty_browser) = Some ''{not json''"
    by (simp_all add: browser_ops empty_browser_def)
  have p: "JSON_parse example_codec ''{not json'' = None"
    by (simp add: example_codec_def)
  from visit_without_envelope [of empty_browser example_codec]
    visit_without_envelope [of "setItem ''searchResults'' ''{not json'' empty_browser" example_codec]
    g p
  show ?thesis by blast
qed

end
